theory Spec2Isabelle
  imports Complex_Main
begin

section \<open>Data model\<close>

text \<open>
  The module \<open>mpl_interactions/pyplot.py\<close> draws on matplotlib axes and registers update
  callbacks with a controls object. Floating point numbers are modelled as \<^typ>\<open>real\<close>
  (no NaN, no rounding). The parameter mapping is a map from names to numbers.
\<close>

type_synonym params = "string \<rightharpoonup> real"

type_synonym lims = "real \<times> real"

datatype error = ValueError | IndexError | TypeError | KeyError

text \<open>\<open>matplotlib.transforms.Bbox\<close>: the fields read by the module.\<close>

record bbox =
  x0 :: real
  y0 :: real
  width :: real
  height :: real

text \<open>\<open>matplotlib.patches.Rectangle((x, y), width=..., height=...)\<close>.\<close>

record rectangle =
  xy :: "real \<times> real"
  rect_width :: real
  rect_height :: real

text \<open>
  The methods of an axes object that change it; every call the module makes is appended
  to the log \<open>calls\<close> of the axes, with its arguments.
\<close>

datatype call =
    Relim
  | Autoscale_view bool bool
  | Set_xlim lims
  | Set_ylim lims
  | Set_title string
  | Plot nat
  | Add_collection nat
  | Scatter nat
  | Imshow nat

text \<open>
  The state of a matplotlib axes as far as the module reads and writes it: the view
  limits, the two autoscale flags, the data limits, the title and the log of calls.
\<close>

record axes =
  view_x :: lims
  view_y :: lims
  autoscalex_on :: bool
  autoscaley_on :: bool
  dataLim :: bbox
  ax_title :: string
  calls :: "call list"

section \<open>The plotting toolkit\<close>

text \<open>
  matplotlib is not part of the repository. Its methods are modelled after its
  documentation: \<open>set_xlim\<close> and \<open>set_ylim\<close> are called with the default \<open>auto=False\<close>,
  which sets the view limits and turns autoscaling of that axis off;
  \<open>autoscale_view(scalex, scaley)\<close> recomputes the view limits of an axis from the data
  limits only when the argument and the autoscale flag of that axis are both true. How
  the view interval is chosen from the data interval (margins, locators) is the
  parameter \<open>view_limits\<close>.
\<close>

definition get_xlim :: "axes \<Rightarrow> lims" where
  "get_xlim ax = view_x ax"

definition get_ylim :: "axes \<Rightarrow> lims" where
  "get_ylim ax = view_y ax"

definition set_xlim :: "lims \<Rightarrow> axes \<Rightarrow> axes" where
  "set_xlim l ax = ax\<lparr>view_x := l, autoscalex_on := False, calls := calls ax @ [Set_xlim l]\<rparr>"

definition set_ylim :: "lims \<Rightarrow> axes \<Rightarrow> axes" where
  "set_ylim l ax = ax\<lparr>view_y := l, autoscaley_on := False, calls := calls ax @ [Set_ylim l]\<rparr>"

definition set_title :: "string \<Rightarrow> axes \<Rightarrow> axes" where
  "set_title s ax = ax\<lparr>ax_title := s, calls := calls ax @ [Set_title s]\<rparr>"

text \<open>The autoscaling itself, as the toolkit also runs it inside its plotting methods.\<close>

definition autoscale :: "(real \<Rightarrow> real \<Rightarrow> lims) \<Rightarrow> bool \<Rightarrow> bool \<Rightarrow> axes \<Rightarrow> axes" where
  "autoscale view_limits scalex scaley ax =
     ax\<lparr>view_x := (if scalex \<and> autoscalex_on ax
                   then view_limits (x0 (dataLim ax)) (x0 (dataLim ax) + width (dataLim ax))
                   else view_x ax),
        view_y := (if scaley \<and> autoscaley_on ax
                   then view_limits (y0 (dataLim ax)) (y0 (dataLim ax) + height (dataLim ax))
                   else view_y ax)\<rparr>"

definition autoscale_view :: "(real \<Rightarrow> real \<Rightarrow> lims) \<Rightarrow> bool \<Rightarrow> bool \<Rightarrow> axes \<Rightarrow> axes" where
  "autoscale_view view_limits scalex scaley ax =
     (let ax = autoscale view_limits scalex scaley ax
      in ax\<lparr>calls := calls ax @ [Autoscale_view scalex scaley]\<rparr>)"

text \<open>\<open>ax.relim()\<close> recomputes the data limits from the artists; \<open>box\<close> is what it finds.\<close>

definition relim :: "bbox \<Rightarrow> axes \<Rightarrow> axes" where
  "relim box ax = ax\<lparr>dataLim := box, calls := calls ax @ [Relim]\<rparr>"

section \<open>simple_hist\<close>

text \<open>Python's \<open>xs[i]\<close> for \<open>i \<ge> 0\<close>: IndexError out of range.\<close>

definition getitem :: "'a list \<Rightarrow> nat \<Rightarrow> error + 'a" where
  "getitem xs i = (if i < length xs then Inr (xs ! i) else Inl IndexError)"

text \<open>numpy's \<open>a.min()\<close> and \<open>a.max()\<close>: ValueError on an empty array.\<close>

definition amin :: "real list \<Rightarrow> error + real" where
  "amin xs = (case xs of [] \<Rightarrow> Inl ValueError | x # ys \<Rightarrow> Inr (fold min ys x))"

definition amax :: "real list \<Rightarrow> error + real" where
  "amax xs = (case xs of [] \<Rightarrow> Inl ValueError | x # ys \<Rightarrow> Inr (fold max ys x))"

text \<open>
  The loop \<open>for i in range(len(heights)): new_patches.append(Rectangle(...))\<close>, over the
  list of indices still to visit.
\<close>

fun hist_loop :: "real list \<Rightarrow> real list \<Rightarrow> real \<Rightarrow> nat list \<Rightarrow> rectangle list
    \<Rightarrow> error + rectangle list" where
  "hist_loop heights bins w [] new_patches = Inr new_patches"
| "hist_loop heights bins w (i # is) new_patches =
     (case getitem bins i of
        Inl e \<Rightarrow> Inl e
      | Inr b \<Rightarrow>
          (case getitem heights i of
             Inl e \<Rightarrow> Inl e
           | Inr h \<Rightarrow>
               hist_loop heights bins w is
                 (new_patches @ [\<lparr>xy = (b, 0), rect_width = w, rect_height = h\<rparr>])))"

text \<open>
  \<open>simple_hist\<close> after the call of \<open>np.histogram\<close>, which is not part of the repository:
  \<open>heights\<close> and \<open>bins\<close> are the two arrays it returned.
\<close>

definition simple_hist_of :: "real list \<Rightarrow> real list \<Rightarrow> error + (lims \<times> lims \<times> rectangle list)" where
  "simple_hist_of heights bins =
     (case getitem bins 1 of
        Inl e \<Rightarrow> Inl e
      | Inr b1 \<Rightarrow>
     (case getitem bins 0 of
        Inl e \<Rightarrow> Inl e
      | Inr b0 \<Rightarrow>
     (let w = b1 - b0 in
     (case hist_loop heights bins w [0..<length heights] [] of
        Inl e \<Rightarrow> Inl e
      | Inr new_patches \<Rightarrow>
     (case amin bins of
        Inl e \<Rightarrow> Inl e
      | Inr bmin \<Rightarrow>
     (case amax bins of
        Inl e \<Rightarrow> Inl e
      | Inr bmax \<Rightarrow>
     (case amax heights of
        Inl e \<Rightarrow> Inl e
      | Inr hmax \<Rightarrow>
          Inr ((bmin, bmax), (0, hmax * 1.05), new_patches))))))))"

text \<open>
  \<open>simple_hist(arr, bins, density, weights)\<close>; \<open>histogram\<close> stands for \<open>np.histogram\<close>
  with the three keyword arguments already given.
\<close>

definition simple_hist :: "('d \<Rightarrow> real list \<times> real list) \<Rightarrow> 'd
    \<Rightarrow> error + (lims \<times> lims \<times> rectangle list)" where
  "simple_hist histogram arr = (case histogram arr of (heights, bins) \<Rightarrow> simple_hist_of heights bins)"

section \<open>stretch\<close>

definition stretch :: "lims \<Rightarrow> lims \<Rightarrow> axes \<Rightarrow> axes" where
  "stretch xlims ylims ax =
     (let cur_xlims = get_xlim ax;
          cur_ylims = get_ylim ax;
          new_lims = ylims;
          new_lims = (if fst new_lims < fst cur_ylims then fst new_lims else fst cur_ylims,
                      if snd new_lims > snd cur_ylims then snd new_lims else snd cur_ylims);
          ax = set_ylim new_lims ax;
          new_lims = xlims;
          new_lims = (if fst new_lims < fst cur_xlims then fst new_lims else fst cur_xlims,
                      if snd new_lims > snd cur_xlims then snd new_lims else snd cur_xlims)
      in set_xlim new_lims ax)"

section \<open>Python values, artists and the world\<close>

text \<open>
  The values the module handles without looking inside are of the type \<open>'d\<close> (arrays,
  images, colours). A function object has an identity (a number, by which a dictionary
  finds it as a key) and is called with positional arguments and with the parameters as
  keyword arguments.
\<close>

datatype 'd pyvalue = VNone | VBool bool | VStr string | VNum real | VArr 'd

datatype 'd pyobj = Val "'d pyvalue" | Func nat "'d pyvalue list \<Rightarrow> params \<Rightarrow> 'd pyvalue"

text \<open>The arguments \<open>xlim\<close> and \<open>ylim\<close>: a string or a tuple of floats.\<close>

datatype lim = Lim_str string | Lim_tuple lims

text \<open>\<open>isinstance(v, str)\<close>, \<open>isinstance(v, Callable)\<close>, \<open>isinstance(v, Number)\<close>, \<open>v is None\<close>.\<close>

fun is_str :: "'d pyobj \<Rightarrow> bool" where
  "is_str (Val (VStr s)) = True"
| "is_str v = False"

fun is_callable :: "'d pyobj \<Rightarrow> bool" where
  "is_callable (Func i f) = True"
| "is_callable v = False"

fun is_number :: "'d pyvalue \<Rightarrow> bool" where
  "is_number (VNum r) = True"
| "is_number v = False"

text \<open>Calling an object: TypeError unless it is a function.\<close>

fun call_obj :: "'d pyobj \<Rightarrow> 'd pyvalue list \<Rightarrow> params \<Rightarrow> error + 'd pyvalue" where
  "call_obj (Func i f) pos kw = Inr (f pos kw)"
| "call_obj (Val v) pos kw = Inl TypeError"

text \<open>The artists the module creates, each with the fields it sets.\<close>

record 'd line2d =
  xdata :: "'d pyvalue option"
  ydata :: "'d pyvalue"
  line_fmt :: "'d pyobj option"
  line_kwargs :: "string \<rightharpoonup> 'd pyobj"

record 'd path_collection =
  coll_offsets :: "'d pyvalue"
  coll_facecolor :: "'d pyvalue"
  coll_edgecolor :: "'d pyvalue"
  coll_sizes :: "'d pyvalue"
  coll_alpha :: "'d pyvalue"
  coll_args :: "string \<rightharpoonup> 'd pyobj"

record 'd axes_image =
  im_data :: "'d pyvalue"
  norm_vmin :: "'d pyvalue"
  norm_vmax :: "'d pyvalue"
  im_args :: "string \<rightharpoonup> 'd pyobj"

datatype 'd artist =
    No_artist
  | Line2D "'d line2d"
  | Patch_collection "rectangle list"
  | Path_collection "'d path_collection"
  | Axes_image "'d axes_image"

text \<open>
  The four \<open>update\<close> functions are closures. A closure is the record of the variables of
  the enclosing call that its body reads; axes, figures, artists, dictionaries and
  controls objects are named by numbers (references into the world below).
\<close>

record 'd plot_closure =
  pl_x_and_y :: bool
  pl_x :: "'d pyobj"
  pl_y :: "'d pyobj"
  pl_line :: nat
  pl_ax :: nat
  pl_xlim :: lim
  pl_ylim :: lim
  pl_title :: "string option"

record 'd hist_closure =
  hi_funcs :: "'d pyobj list"
  hi_density :: "'d pyvalue"
  hi_bins :: "'d pyvalue"
  hi_weights :: "'d pyvalue"
  hi_ax :: nat
  hi_pc :: nat

record 'd scatter_closure =
  sc_title :: "string option"
  sc_ax :: nat
  sc_scats :: "nat list"
  sc_X :: "'d pyobj list"
  sc_Y :: "'d pyobj list"
  sc_cols :: "'d pyobj list"
  sc_sizes :: "'d pyobj list"
  sc_edgecolors :: "'d pyobj list"
  sc_alphas :: "'d pyobj list"
  sc_cache :: nat
  sc_stretch_x :: bool
  sc_stretch_y :: bool

record 'd imshow_closure =
  im_title :: "string option"
  im_ax :: nat
  im_X :: "'d pyobj"
  im_im :: nat
  im_autoscale_cmap :: bool
  im_vmin :: "'d pyobj"
  im_vmax :: "'d pyobj"

datatype 'd callback =
    Plot_update "'d plot_closure"
  | Hist_update "'d hist_closure"
  | Scatter_update "'d scatter_closure"
  | Imshow_update "'d imshow_closure"

text \<open>
  Modelled from the spec: the class \<open>Controls\<close> of \<open>controller.py\<close>, which is not among
  the sources. The spec has it hold the params, "the current mapping from parameter name
  to its live value, read by update callbacks", and "wire each widget's change event to
  a recomputation of one or more plotted artists": a controls object is the params and
  the registered callbacks, each with the figure and the parameter names it was
  registered for.
\<close>

record 'd controls =
  ctl_params :: params
  registry :: "('d callback \<times> nat \<times> string set) list"

text \<open>
  The world: the objects that outlive a call. \<open>toolbar_of fig\<close> is \<open>None\<close> when the canvas
  of the figure has no toolbar, else the number of views pushed on it; \<open>current_image\<close> is
  what \<open>matplotlib.pyplot.sci\<close> sets.
\<close>

record 'd world =
  axes_of :: "nat \<Rightarrow> axes"
  n_artists :: nat
  artists :: "nat \<Rightarrow> 'd artist"
  artist_axes :: "nat \<Rightarrow> nat"
  toolbar_of :: "nat \<Rightarrow> nat option"
  current_image :: "nat option"
  n_caches :: nat
  cache_of :: "nat \<Rightarrow> (nat \<rightharpoonup> 'd pyvalue)"
  controls_of :: "nat \<Rightarrow> 'd controls"

definition upd_axes :: "nat \<Rightarrow> (axes \<Rightarrow> axes) \<Rightarrow> 'd world \<Rightarrow> 'd world" where
  "upd_axes a f w = w\<lparr>axes_of := (axes_of w)(a := f (axes_of w a))\<rparr>"

definition upd_artist :: "nat \<Rightarrow> ('d artist \<Rightarrow> 'd artist) \<Rightarrow> 'd world \<Rightarrow> 'd world" where
  "upd_artist i f w = w\<lparr>artists := (artists w)(i := f (artists w i))\<rparr>"

text \<open>
  What the module uses of numpy, matplotlib and Python's \<open>str.format\<close> without the
  repository saying what it computes: parameters of the model.
\<close>

record 'd toolkit =
  view_limits :: "real \<Rightarrow> real \<Rightarrow> lims"
  data_bbox :: "'d world \<Rightarrow> nat \<Rightarrow> bbox"
  str_format :: "string \<Rightarrow> params \<Rightarrow> string"
  arr_truthy :: "'d \<Rightarrow> bool"
  np_histogram :: "'d pyvalue \<Rightarrow> 'd pyvalue \<Rightarrow> 'd pyvalue \<Rightarrow> 'd pyvalue \<Rightarrow> real list \<times> real list"
  column_stack :: "'d pyvalue \<Rightarrow> 'd pyvalue \<Rightarrow> 'd pyvalue"
  to_rgba_array :: "'d pyvalue \<Rightarrow> error + 'd pyvalue"
  cmap_call :: "'d path_collection \<Rightarrow> 'd pyvalue \<Rightarrow> error + 'd pyvalue"
  get_datalim :: "'d path_collection \<Rightarrow> bbox"
  is_color_array :: "'d pyvalue \<Rightarrow> bool"
  add_axis :: "'d pyvalue \<Rightarrow> 'd pyvalue"
  is_number_seq :: "'d pyvalue \<Rightarrow> bool"
  as_object_array :: "'d pyvalue \<Rightarrow> 'd pyvalue"
  asarray :: "'d pyvalue \<Rightarrow> 'd pyvalue"
  ndim :: "'d pyvalue \<Rightarrow> nat"
  norm_autoscale :: "'d pyvalue \<Rightarrow> 'd pyvalue \<times> 'd pyvalue"

text \<open>
  The functions imported from \<open>helpers.py\<close> and \<open>controller.py\<close>, which are not among the
  sources: parameters of the model. \<open>gogogo_figure\<close> and \<open>gogogo_controls\<close> may create
  objects, so they take the world and return it; the others only compute a value.
\<close>

record 'd helpers =
  notebook_backend :: "'d world \<Rightarrow> bool"
  gogogo_figure :: "bool \<Rightarrow> nat option \<Rightarrow> 'd world \<Rightarrow> (nat \<times> nat) \<times> 'd world"
  create_slider_format_dict :: "'d pyvalue \<Rightarrow> bool \<Rightarrow> 'd pyvalue"
  gogogo_controls :: "(string \<rightharpoonup> 'd pyobj) \<Rightarrow> nat option \<Rightarrow> bool \<Rightarrow> 'd pyvalue \<Rightarrow> 'd pyvalue
     \<Rightarrow> 'd pyvalue \<Rightarrow> 'd world \<Rightarrow> (nat \<times> params) \<times> 'd world"
  callable_else_value :: "'d pyobj \<Rightarrow> params \<Rightarrow> 'd pyvalue"
  eval_xy :: "'d pyobj \<Rightarrow> 'd pyobj \<Rightarrow> params \<Rightarrow> (nat \<rightharpoonup> 'd pyvalue) option
     \<Rightarrow> ('d pyvalue \<times> 'd pyvalue) \<times> (nat \<rightharpoonup> 'd pyvalue) option"
  update_datalim_from_bbox :: "bbox \<Rightarrow> bool \<Rightarrow> bool \<Rightarrow> axes \<Rightarrow> axes"
  broadcast_many :: "('d pyobj \<times> string) list \<Rightarrow> 'd pyobj list list"

text \<open>The arguments that the public functions only hand on to the helpers.\<close>

record 'd options =
  opt_slider_formats :: "'d pyvalue"
  opt_force_ipywidgets :: bool
  opt_play_buttons :: "'d pyvalue"
  opt_play_button_pos :: "'d pyvalue"
  opt_display_controls :: bool

text \<open>The truth value of an object, as \<open>if fmt:\<close> takes it.\<close>

fun truthy :: "'d toolkit \<Rightarrow> 'd pyobj \<Rightarrow> bool" where
  "truthy tk (Func i f) = True"
| "truthy tk (Val VNone) = False"
| "truthy tk (Val (VBool b)) = b"
| "truthy tk (Val (VStr s)) = (s \<noteq> [])"
| "truthy tk (Val (VNum r)) = (r \<noteq> 0)"
| "truthy tk (Val (VArr d)) = arr_truthy tk d"

text \<open>
  \<open>ax.plot(...)\<close>: a new line on the axes \<open>a\<close>; the toolkit updates the data limits and
  autoscales the view. The result is the line.
\<close>

definition plot :: "'d toolkit \<Rightarrow> nat \<Rightarrow> 'd pyvalue option \<Rightarrow> 'd pyvalue \<Rightarrow> 'd pyobj option
    \<Rightarrow> (string \<rightharpoonup> 'd pyobj) \<Rightarrow> 'd world \<Rightarrow> nat \<times> 'd world" where
  "plot tk a x y fmt kw w =
     (let line = n_artists w;
          w = w\<lparr>n_artists := Suc line,
                artists := (artists w)(line :=
                  Line2D \<lparr>xdata = x, ydata = y, line_fmt = fmt, line_kwargs = kw\<rparr>),
                artist_axes := (artist_axes w)(line := a)\<rparr>;
          box = data_bbox tk w a
      in (line, upd_axes a (\<lambda>ax. autoscale (view_limits tk) True True
                               (ax\<lparr>dataLim := box, calls := calls ax @ [Plot line]\<rparr>)) w))"

text \<open>\<open>line.set_data(x, y)\<close> and \<open>line.set_ydata(y)\<close>.\<close>

fun set_data :: "'d pyvalue \<Rightarrow> 'd pyvalue \<Rightarrow> 'd artist \<Rightarrow> 'd artist" where
  "set_data x y (Line2D l) = Line2D (l\<lparr>xdata := Some x, ydata := y\<rparr>)"
| "set_data x y a = a"

fun set_ydata :: "'d pyvalue \<Rightarrow> 'd artist \<Rightarrow> 'd artist" where
  "set_ydata y (Line2D l) = Line2D (l\<lparr>ydata := y\<rparr>)"
| "set_ydata y a = a"

text \<open>
  Modelled from the spec: the method \<open>Controls.register_function(f, fig, params)\<close> of
  \<open>controller.py\<close>, which is not among the sources. It adds the callback, with the figure
  and the parameter names, to the registry of the controls object.
\<close>

definition register_function :: "'d callback \<Rightarrow> nat \<Rightarrow> string set \<Rightarrow> nat \<Rightarrow> 'd world \<Rightarrow> 'd world" where
  "register_function f fig keys c w =
     w\<lparr>controls_of := (controls_of w)(c :=
          (controls_of w c)\<lparr>registry := registry (controls_of w c) @ [(f, fig, keys)]\<rparr>)\<rparr>"

section \<open>interactive_plot\<close>

definition plot_kwargs_list :: "string list" where
  "plot_kwargs_list =
     [''linewidth'', ''linestyle'', ''color'', ''marker'', ''markersize'', ''markeredgewidth'',
      ''markeredgecolor'', ''markerfacecolor'', ''markerfacecoloralt'', ''fillstyle'',
      ''antialiased'', ''dash_capstyle'', ''solid_capstyle'', ''dash_joinstyle'',
      ''solid_joinstyle'', ''pickradius'', ''drawstyle'', ''markevery'', ''label'']"

text \<open>
  The loop \<open>for k in plot_kwargs_list: if k in kwargs: plot_kwargs[k] = kwargs.pop(k)\<close>;
  the state is the pair of \<open>plot_kwargs\<close> and \<open>kwargs\<close>.
\<close>

fun pop_plot_kwargs :: "string list \<Rightarrow> (string \<rightharpoonup> 'v) \<times> (string \<rightharpoonup> 'v)
    \<Rightarrow> (string \<rightharpoonup> 'v) \<times> (string \<rightharpoonup> 'v)" where
  "pop_plot_kwargs [] (plot_kwargs, kwargs) = (plot_kwargs, kwargs)"
| "pop_plot_kwargs (k # ks) (plot_kwargs, kwargs) =
     (case kwargs k of
        Some v \<Rightarrow> pop_plot_kwargs ks (plot_kwargs(k \<mapsto> v), kwargs(k := None))
      | None \<Rightarrow> pop_plot_kwargs ks (plot_kwargs, kwargs))"

text \<open>
  The positional arguments (the \<open>if len(args) == 0: ... else: raise ValueError\<close> chain):
  \<open>Inl ValueError\<close> for the \<open>raise\<close>, \<open>Inr None\<close> for the bare \<open>return\<close>, else
  \<open>(x_and_y, x, y, fmt)\<close>.
\<close>

definition plot_args :: "'d pyobj list
    \<Rightarrow> error + (bool \<times> 'd pyobj \<times> 'd pyobj \<times> 'd pyobj) option" where
  "plot_args args =
     (let x_and_y = False;
          x = Val VNone;
          fmt = Val VNone
      in if length args = 0 then Inr None
         else if length args = 1 then Inr (Some (x_and_y, x, args ! 0, fmt))
         else if length args = 2 then
           (if is_str (args ! 1) then Inr (Some (x_and_y, x, args ! 0, args ! 1))
            else Inr (Some (True, args ! 0, args ! 1, fmt)))
         else if length args = 3 then Inr (Some (True, args ! 0, args ! 1, args ! 2))
         else Inl ValueError)"

text \<open>
  The closure \<open>update(params, indices)\<close> of \<open>interactive_plot\<close>. The result is the error
  raised, if any, the params dictionary as the call leaves it, and the world.
\<close>

definition plot_update :: "'d toolkit \<Rightarrow> 'd helpers \<Rightarrow> 'd plot_closure \<Rightarrow> params
    \<Rightarrow> (string \<rightharpoonup> nat) \<Rightarrow> 'd world \<Rightarrow> error option \<times> params \<times> 'd world" where
  "plot_update tk hp cl params indices w =
     (let ax = pl_ax cl;
          w = (if pl_x_and_y cl
               then (case fst (eval_xy hp (pl_x cl) (pl_y cl) params None) of
                       (x', y') \<Rightarrow> upd_artist (pl_line cl) (set_data x' y') w)
               else upd_artist (pl_line cl)
                      (set_ydata (callable_else_value hp (pl_y cl) params)) w);
          cur_xlims = get_xlim (axes_of w ax);
          cur_ylims = get_ylim (axes_of w ax);
          w = upd_axes ax (relim (data_bbox tk w ax)) w;
          w = (if pl_ylim cl = Lim_str ''auto''
               then upd_axes ax (autoscale_view (view_limits tk) False True) w
               else if pl_ylim cl = Lim_str ''stretch''
               then (let new_lims = (y0 (dataLim (axes_of w ax)),
                                     y0 (dataLim (axes_of w ax)) + height (dataLim (axes_of w ax)));
                         new_lims =
                           (if fst new_lims < fst cur_ylims then fst new_lims else fst cur_ylims,
                            if snd new_lims > snd cur_ylims then snd new_lims else snd cur_ylims)
                     in upd_axes ax (set_ylim new_lims) w)
               else w);
          w = (if pl_xlim cl = Lim_str ''auto''
               then upd_axes ax (autoscale_view (view_limits tk) True False) w
               else if pl_xlim cl = Lim_str ''stretch''
               then (let new_lims = (x0 (dataLim (axes_of w ax)),
                                     x0 (dataLim (axes_of w ax)) + width (dataLim (axes_of w ax)));
                         new_lims =
                           (if fst new_lims < fst cur_xlims then fst new_lims else fst cur_xlims,
                            if snd new_lims > snd cur_xlims then snd new_lims else snd cur_xlims)
                     in upd_axes ax (set_xlim new_lims) w)
               else w);
          w = (case pl_title cl of
                 None \<Rightarrow> w
               | Some t \<Rightarrow> upd_axes ax (set_title (str_format tk t params)) w)
      in (None, params, w))"

text \<open>
  \<open>interactive_plot(*args, xlim, ylim, ..., **kwargs)\<close>. The result is the exception or
  the value returned (\<open>None\<close> or the controls object), and the world. The variable \<open>line\<close>
  of the closure is bound after the registration, to the line that \<open>ax.plot\<close> returns:
  the next artist of the world.
\<close>

definition interactive_plot :: "'d toolkit \<Rightarrow> 'd helpers \<Rightarrow> 'd pyobj list \<Rightarrow> lim \<Rightarrow> lim
    \<Rightarrow> string option \<Rightarrow> nat option \<Rightarrow> nat option \<Rightarrow> 'd options \<Rightarrow> (string \<rightharpoonup> 'd pyobj)
    \<Rightarrow> 'd world \<Rightarrow> (error + nat option) \<times> 'd world" where
  "interactive_plot tk hp args xlim ylim title ax controls opts kwargs w =
     (case pop_plot_kwargs plot_kwargs_list (Map.empty, kwargs) of (plot_kwargs, kwargs) \<Rightarrow>
      (case plot_args args of
         Inl e \<Rightarrow> (Inl e, w)
       | Inr None \<Rightarrow> (Inr None, w)
       | Inr (Some (x_and_y, x, y, fmt)) \<Rightarrow>
          (let ipympl = notebook_backend hp w;
               use_ipywidgets = (ipympl \<or> opt_force_ipywidgets opts)
           in case gogogo_figure hp ipympl ax w of ((fig, ax), w) \<Rightarrow>
          (let slider_formats =
                 create_slider_format_dict hp (opt_slider_formats opts) use_ipywidgets
           in case gogogo_controls hp kwargs controls (opt_display_controls opts) slider_formats
                     (opt_play_buttons opts) (opt_play_button_pos opts) w of
                ((controls, params), w) \<Rightarrow>
          (let update = Plot_update
                 \<lparr>pl_x_and_y = x_and_y, pl_x = x, pl_y = y, pl_line = n_artists w, pl_ax = ax,
                  pl_xlim = xlim, pl_ylim = ylim, pl_title = title\<rparr>;
               w = register_function update fig (dom params) controls w;
               fmt_arg = (if truthy tk fmt then Some fmt else None);
               (line, w) =
                 (if x_and_y
                  then (case fst (eval_xy hp x y params None) of
                          (x', y') \<Rightarrow> plot tk ax (Some x') y' fmt_arg plot_kwargs w)
                  else (let y' = callable_else_value hp y params
                        in plot tk ax None y' fmt_arg plot_kwargs w));
               w = (case xlim of Lim_str s \<Rightarrow> w | Lim_tuple l \<Rightarrow> upd_axes ax (set_xlim l) w);
               w = (case ylim of Lim_str s \<Rightarrow> w | Lim_tuple l \<Rightarrow> upd_axes ax (set_ylim l) w);
               w = (case title of
                      None \<Rightarrow> w
                    | Some t \<Rightarrow> upd_axes ax (set_title (str_format tk t params)) w);
               w = (case toolbar_of w fig of
                      None \<Rightarrow> w
                    | Some n \<Rightarrow> w\<lparr>toolbar_of := (toolbar_of w)(fig := Some (Suc n))\<rparr>)
           in (Inr (Some controls), w))))))"

section \<open>interactive_hist\<close>

text \<open>
  The argument \<open>f\<close>: one object, or a sequence of objects. \<open>np.atleast_1d\<close> makes a
  one-element array of the former and an array of the latter.
\<close>

datatype 'd fs = Single "'d pyobj" | Several "'d pyobj list"

fun atleast_1d :: "'d fs \<Rightarrow> 'd pyobj list" where
  "atleast_1d (Single g) = [g]"
| "atleast_1d (Several gs) = gs"

text \<open>
  \<open>ax.add_collection(pc, autolim=True)\<close> with a new \<open>PatchCollection([])\<close>, and
  \<open>pc.set_paths(patches)\<close>.
\<close>

definition add_collection :: "'d toolkit \<Rightarrow> nat \<Rightarrow> 'd world \<Rightarrow> nat \<times> 'd world" where
  "add_collection tk a w =
     (let pc = n_artists w;
          w = w\<lparr>n_artists := Suc pc,
                artists := (artists w)(pc := Patch_collection []),
                artist_axes := (artist_axes w)(pc := a)\<rparr>;
          box = data_bbox tk w a
      in (pc, upd_axes a (\<lambda>ax. autoscale (view_limits tk) True True
                             (ax\<lparr>dataLim := box, calls := calls ax @ [Add_collection pc]\<rparr>)) w))"

fun set_paths :: "rectangle list \<Rightarrow> 'd artist \<Rightarrow> 'd artist" where
  "set_paths ps (Patch_collection qs) = Patch_collection ps"
| "set_paths ps a = a"

text \<open>The closure \<open>update(params, indices)\<close> of \<open>interactive_hist\<close>.\<close>

definition hist_update :: "'d toolkit \<Rightarrow> 'd helpers \<Rightarrow> 'd hist_closure \<Rightarrow> params
    \<Rightarrow> (string \<rightharpoonup> nat) \<Rightarrow> 'd world \<Rightarrow> error option \<times> params \<times> 'd world" where
  "hist_update tk hp cl params indices w =
     (case getitem (hi_funcs cl) 0 of
        Inl e \<Rightarrow> (Some e, params, w)
      | Inr f0 \<Rightarrow>
     (case call_obj f0 [] params of
        Inl e \<Rightarrow> (Some e, params, w)
      | Inr arr \<Rightarrow>
     (case simple_hist (\<lambda>arr. np_histogram tk arr (hi_bins cl) (hi_density cl) (hi_weights cl)) arr of
        Inl e \<Rightarrow> (Some e, params, w)
      | Inr (new_x, new_y, new_patches) \<Rightarrow>
          (let w = upd_axes (hi_ax cl) (stretch new_x new_y) w;
               w = upd_artist (hi_pc cl) (set_paths new_patches) w;
               w = upd_axes (hi_ax cl) (autoscale_view (view_limits tk) True True) w
           in (None, params, w)))))"

text \<open>\<open>interactive_hist(f, density, bins, weights, ax, ..., **kwargs)\<close>.\<close>

definition interactive_hist :: "'d toolkit \<Rightarrow> 'd helpers \<Rightarrow> 'd fs \<Rightarrow> 'd pyvalue \<Rightarrow> 'd pyvalue
    \<Rightarrow> 'd pyvalue \<Rightarrow> nat option \<Rightarrow> nat option \<Rightarrow> 'd options \<Rightarrow> (string \<rightharpoonup> 'd pyobj)
    \<Rightarrow> 'd world \<Rightarrow> (error + nat) \<times> 'd world" where
  "interactive_hist tk hp f density bins weights ax controls opts kwargs w =
     (let funcs = atleast_1d f
      in if length funcs \<noteq> 1 then (Inl ValueError, w)
         else
          (let ipympl = notebook_backend hp w
           in case gogogo_figure hp ipympl ax w of ((fig, ax), w) \<Rightarrow>
          (let use_ipywidgets = (ipympl \<or> opt_force_ipywidgets opts);
               slider_formats =
                 create_slider_format_dict hp (opt_slider_formats opts) use_ipywidgets
           in case gogogo_controls hp kwargs controls (opt_display_controls opts) slider_formats
                     (opt_play_buttons opts) (opt_play_button_pos opts) w of
                ((controls, params), w) \<Rightarrow>
          (case add_collection tk ax w of (pc, w) \<Rightarrow>
          (let update = Hist_update
                 \<lparr>hi_funcs = funcs, hi_density = density, hi_bins = bins, hi_weights = weights,
                  hi_ax = ax, hi_pc = pc\<rparr>;
               w = register_function update fig (dom params) controls w
           in case getitem funcs 0 of
                Inl e \<Rightarrow> (Inl e, w)
              | Inr f0 \<Rightarrow>
             (case call_obj f0 [] params of
                Inl e \<Rightarrow> (Inl e, w)
              | Inr arr \<Rightarrow>
             (case simple_hist (\<lambda>arr. np_histogram tk arr bins density weights) arr of
                Inl e \<Rightarrow> (Inl e, w)
              | Inr (new_x, new_y, new_patches) \<Rightarrow>
                  (let w = upd_artist pc (set_paths new_patches) w;
                       w = upd_axes ax (set_xlim new_x) w;
                       w = upd_axes ax (set_ylim new_y) w
                   in (Inr controls, w)))))))))"

section \<open>interactive_scatter\<close>

text \<open>
  Python's \<open>str.lower\<close> on ASCII strings (a \<^typ>\<open>char\<close> is a byte: the letters A to Z are
  the only bytes it changes).
\<close>

definition lower_char :: "char \<Rightarrow> char" where
  "lower_char c =
     (let n = (of_char c :: nat) in if 65 \<le> n \<and> n \<le> 90 then char_of (n + 32) else c)"

definition lower :: "string \<Rightarrow> string" where
  "lower s = map lower_char s"

text \<open>The two local functions \<open>_prep_color\<close> and \<open>_prep_size\<close>.\<close>

definition prep_color :: "'d toolkit \<Rightarrow> 'd pyobj \<Rightarrow> 'd pyobj" where
  "prep_color tk col =
     (case col of
        Val v \<Rightarrow> if is_color_array tk v then Val (add_axis tk v) else col
      | Func i f \<Rightarrow> col)"

definition prep_size :: "'d toolkit \<Rightarrow> 'd pyobj \<Rightarrow> 'd pyobj" where
  "prep_size tk s =
     (case s of
        Val v \<Rightarrow> if is_number_seq tk v then Val (as_object_array tk v) else s
      | Func i f \<Rightarrow> s)"

text \<open>The choice of the stretch policy for the two axes (lines 558 to 566).\<close>

definition scatter_stretch_x :: "lim \<Rightarrow> bool" where
  "scatter_stretch_x xlim =
     (case xlim of Lim_str s \<Rightarrow> s = ''stretch'' | Lim_tuple l \<Rightarrow> False)"

definition scatter_stretch_y :: "lim \<Rightarrow> bool" where
  "scatter_stretch_y ylim =
     (case ylim of
        Lim_str s \<Rightarrow> if lower s = ''stretch'' then True else False
      | Lim_tuple l \<Rightarrow> False)"

text \<open>
  The local functions \<open>check_callable_xy\<close> and \<open>check_callable_alpha\<close>; the dictionary
  \<open>cache\<close> of the enclosing call is the last argument and the second result.
\<close>

definition check_callable_xy :: "'d pyobj \<Rightarrow> 'd pyvalue \<Rightarrow> 'd pyvalue \<Rightarrow> params
    \<Rightarrow> (nat \<rightharpoonup> 'd pyvalue) \<Rightarrow> 'd pyvalue \<times> (nat \<rightharpoonup> 'd pyvalue)" where
  "check_callable_xy arg x y params cache =
     (case arg of
        Func i f \<Rightarrow>
          (case cache i of
             None \<Rightarrow> (let v = f [x, y] params in (v, cache(i \<mapsto> v)))
           | Some v \<Rightarrow> (v, cache))
      | Val v \<Rightarrow> (v, cache))"

definition check_callable_alpha :: "'d pyobj \<Rightarrow> params
    \<Rightarrow> (nat \<rightharpoonup> 'd pyvalue) \<Rightarrow> 'd pyvalue \<times> (nat \<rightharpoonup> 'd pyvalue)" where
  "check_callable_alpha alpha' params cache =
     (case alpha' of
        Func i f \<Rightarrow>
          (case cache i of
             None \<Rightarrow> (let v = f [] params in (v, cache(i \<mapsto> v)))
           | Some v \<Rightarrow> (v, cache))
      | Val v \<Rightarrow> (v, cache))"

text \<open>The setters of a scatter artist, and \<open>ax.scatter(...)\<close>.\<close>

fun upd_coll :: "('d path_collection \<Rightarrow> 'd path_collection) \<Rightarrow> 'd artist \<Rightarrow> 'd artist" where
  "upd_coll f (Path_collection c) = Path_collection (f c)"
| "upd_coll f a = a"

fun the_coll :: "'d artist \<Rightarrow> 'd path_collection" where
  "the_coll (Path_collection c) = c"
| "the_coll a =
     \<lparr>coll_offsets = VNone, coll_facecolor = VNone, coll_edgecolor = VNone,
      coll_sizes = VNone, coll_alpha = VNone, coll_args = Map.empty\<rparr>"

definition scatter :: "'d toolkit \<Rightarrow> nat \<Rightarrow> 'd pyvalue \<Rightarrow> 'd pyvalue \<Rightarrow> 'd pyvalue \<Rightarrow> 'd pyvalue
    \<Rightarrow> 'd pyvalue \<Rightarrow> 'd pyvalue \<Rightarrow> (string \<rightharpoonup> 'd pyobj) \<Rightarrow> 'd world \<Rightarrow> nat \<times> 'd world" where
  "scatter tk a x y c s alpha ec args w =
     (let scat = n_artists w;
          w = w\<lparr>n_artists := Suc scat,
                artists := (artists w)(scat := Path_collection
                  \<lparr>coll_offsets = column_stack tk x y, coll_facecolor = c,
                   coll_edgecolor = ec, coll_sizes = s, coll_alpha = alpha,
                   coll_args = args\<rparr>),
                artist_axes := (artist_axes w)(scat := a)\<rparr>;
          box = data_bbox tk w a
      in (scat, upd_axes a (\<lambda>ax. autoscale (view_limits tk) True True
                               (ax\<lparr>dataLim := box, calls := calls ax @ [Scatter scat]\<rparr>)) w))"

text \<open>
  The colour conversion in \<open>update\<close>: \<open>to_rgba_array\<close>, on its ValueError the colour map
  of the artist, and on the TypeError of that a ValueError.
\<close>

definition convert_color :: "'d toolkit \<Rightarrow> 'd path_collection \<Rightarrow> 'd pyvalue \<Rightarrow> error + 'd pyvalue" where
  "convert_color tk scat c =
     (case to_rgba_array tk c of
        Inr c \<Rightarrow> Inr c
      | Inl ValueError \<Rightarrow>
          (case cmap_call tk scat c of
             Inr c \<Rightarrow> Inr c
           | Inl TypeError \<Rightarrow> Inl ValueError
           | Inl e \<Rightarrow> Inl e)
      | Inl e \<Rightarrow> Inl e)"

text \<open>
  The body of the loop of \<open>update\<close> for one tuple of the \<open>zip\<close>, and the loop. The cache
  is the dictionary \<open>sc_cache cl\<close> of the world.
\<close>

definition scatter_update_step :: "'d toolkit \<Rightarrow> 'd helpers \<Rightarrow> 'd scatter_closure \<Rightarrow> params
    \<Rightarrow> nat \<times> 'd pyobj \<times> 'd pyobj \<times> 'd pyobj \<times> 'd pyobj \<times> 'd pyobj \<times> 'd pyobj
    \<Rightarrow> 'd world \<Rightarrow> error option \<times> 'd world" where
  "scatter_update_step tk hp cl params tup w =
     (case tup of (scat, x', y', c', s', ec', alpha') \<Rightarrow>
      (let k = sc_cache cl
       in case eval_xy hp x' y' params (Some (cache_of w k)) of ((x, y), cache) \<Rightarrow>
      (let w = (case cache of
                  None \<Rightarrow> w
                | Some m \<Rightarrow> w\<lparr>cache_of := (cache_of w)(k := m)\<rparr>);
           w = upd_artist scat (upd_coll (\<lambda>p. p\<lparr>coll_offsets := column_stack tk x y\<rparr>)) w
       in case check_callable_xy c' x y params (cache_of w k) of (c, m) \<Rightarrow>
      (let w = w\<lparr>cache_of := (cache_of w)(k := m)\<rparr>
       in case check_callable_xy s' x y params (cache_of w k) of (s, m) \<Rightarrow>
      (let w = w\<lparr>cache_of := (cache_of w)(k := m)\<rparr>
       in case check_callable_xy ec' x y params (cache_of w k) of (ec, m) \<Rightarrow>
      (let w = w\<lparr>cache_of := (cache_of w)(k := m)\<rparr>
       in case check_callable_alpha alpha' params (cache_of w k) of (a, m) \<Rightarrow>
      (let w = w\<lparr>cache_of := (cache_of w)(k := m)\<rparr>
       in case (if c \<noteq> VNone
                then (case convert_color tk (the_coll (artists w scat)) c of
                        Inl e \<Rightarrow> Inl e
                      | Inr c \<Rightarrow> Inr (upd_artist scat (upd_coll (\<lambda>p. p\<lparr>coll_facecolor := c\<rparr>)) w))
                else Inr w) of
            Inl e \<Rightarrow> (Some e, w)
          | Inr w \<Rightarrow>
      (let w = (if ec \<noteq> VNone
                then upd_artist scat (upd_coll (\<lambda>p. p\<lparr>coll_edgecolor := ec\<rparr>)) w else w);
           w = (if s \<noteq> VNone \<and> \<not> is_number s
                then upd_artist scat (upd_coll (\<lambda>p. p\<lparr>coll_sizes := s\<rparr>)) w else w);
           w = (if a \<noteq> VNone
                then upd_artist scat (upd_coll (\<lambda>p. p\<lparr>coll_alpha := a\<rparr>)) w else w);
           w = upd_axes (sc_ax cl)
                 (update_datalim_from_bbox hp (get_datalim tk (the_coll (artists w scat)))
                    (sc_stretch_x cl) (sc_stretch_y cl)) w
       in (None, w)))))))))"

fun scatter_update_loop :: "'d toolkit \<Rightarrow> 'd helpers \<Rightarrow> 'd scatter_closure \<Rightarrow> params
    \<Rightarrow> (nat \<times> 'd pyobj \<times> 'd pyobj \<times> 'd pyobj \<times> 'd pyobj \<times> 'd pyobj \<times> 'd pyobj) list
    \<Rightarrow> 'd world \<Rightarrow> error option \<times> 'd world" where
  "scatter_update_loop tk hp cl params [] w = (None, w)"
| "scatter_update_loop tk hp cl params (tup # tups) w =
     (case scatter_update_step tk hp cl params tup w of
        (Some e, w) \<Rightarrow> (Some e, w)
      | (None, w) \<Rightarrow> scatter_update_loop tk hp cl params tups w)"

text \<open>The closure \<open>update(params, indices)\<close> of \<open>interactive_scatter\<close>.\<close>

definition scatter_update :: "'d toolkit \<Rightarrow> 'd helpers \<Rightarrow> 'd scatter_closure \<Rightarrow> params
    \<Rightarrow> (string \<rightharpoonup> nat) \<Rightarrow> 'd world \<Rightarrow> error option \<times> params \<times> 'd world" where
  "scatter_update tk hp cl params indices w =
     (let w = (case sc_title cl of
                 None \<Rightarrow> w
               | Some t \<Rightarrow> upd_axes (sc_ax cl) (set_title (str_format tk t params)) w)
      in case scatter_update_loop tk hp cl params
                (zip (sc_scats cl) (zip (sc_X cl) (zip (sc_Y cl) (zip (sc_cols cl)
                   (zip (sc_sizes cl) (zip (sc_edgecolors cl) (sc_alphas cl))))))) w of
           (Some e, w) \<Rightarrow> (Some e, params, w)
         | (None, w) \<Rightarrow>
             (let w = w\<lparr>cache_of := (cache_of w)(sc_cache cl := Map.empty)\<rparr>;
                  w = upd_axes (sc_ax cl) (autoscale_view (view_limits tk) True True) w
              in (None, params, w)))"

text \<open>
  The loop of \<open>interactive_scatter\<close> that creates the artists; \<open>k\<close> is the dictionary
  \<open>cache\<close>, \<open>args\<close> stands for \<open>vmin\<close>, \<open>vmax\<close> and \<open>cmap\<close>.
\<close>

fun scatter_create_loop :: "'d toolkit \<Rightarrow> 'd helpers \<Rightarrow> nat \<Rightarrow> nat \<Rightarrow> string option \<Rightarrow> params
    \<Rightarrow> (string \<rightharpoonup> 'd pyobj)
    \<Rightarrow> ('d pyobj \<times> 'd pyobj \<times> 'd pyobj \<times> 'd pyobj \<times> 'd pyobj \<times> 'd pyobj \<times> 'd pyobj) list
    \<Rightarrow> 'd world \<Rightarrow> 'd world" where
  "scatter_create_loop tk hp ax k title params args [] w = w"
| "scatter_create_loop tk hp ax k title params args (tup # tups) w =
     (case tup of (x', y', c', s', ec', alpha', label') \<Rightarrow>
      (case fst (eval_xy hp x' y' params None) of (x, y) \<Rightarrow>
      (case check_callable_xy c' x y params (cache_of w k) of (c, m) \<Rightarrow>
      (let w = w\<lparr>cache_of := (cache_of w)(k := m)\<rparr>
       in case check_callable_xy s' x y params (cache_of w k) of (s, m) \<Rightarrow>
      (let w = w\<lparr>cache_of := (cache_of w)(k := m)\<rparr>
       in case check_callable_xy ec' x y params (cache_of w k) of (ec, m) \<Rightarrow>
      (let w = w\<lparr>cache_of := (cache_of w)(k := m)\<rparr>
       in case check_callable_alpha alpha' params (cache_of w k) of (a, m) \<Rightarrow>
      (let w = w\<lparr>cache_of := (cache_of w)(k := m)\<rparr>;
           w = snd (scatter tk ax x y c s a ec (args(''label'' \<mapsto> label')) w);
           w = (case title of
                  None \<Rightarrow> w
                | Some t \<Rightarrow> upd_axes ax (set_title (str_format tk t params)) w)
       in scatter_create_loop tk hp ax k title params args tups w)))))))"

text \<open>
  \<open>interactive_scatter(x, y, s, c, cmap, vmin, vmax, alpha, edgecolors, label, xlim, ylim,
  ax, ..., **kwargs)\<close>. The list \<open>scats\<close> of the closure is filled after the registration,
  with the artists that the loop creates: the next artists of the world, one for each
  tuple of the \<open>zip\<close>. Unpacking the result of \<open>broadcast_many\<close> into seven names raises
  ValueError when it has another length.
\<close>

definition interactive_scatter :: "'d toolkit \<Rightarrow> 'd helpers \<Rightarrow> 'd pyobj \<Rightarrow> 'd pyobj \<Rightarrow> 'd pyobj
    \<Rightarrow> 'd pyobj \<Rightarrow> 'd pyobj \<Rightarrow> 'd pyobj \<Rightarrow> 'd pyobj \<Rightarrow> 'd pyobj \<Rightarrow> 'd pyobj \<Rightarrow> 'd pyobj
    \<Rightarrow> lim \<Rightarrow> lim \<Rightarrow> nat option \<Rightarrow> string option \<Rightarrow> nat option \<Rightarrow> 'd options
    \<Rightarrow> (string \<rightharpoonup> 'd pyobj) \<Rightarrow> 'd world \<Rightarrow> (error + nat) \<times> 'd world" where
  "interactive_scatter tk hp x y s c cmap vmin vmax alpha edgecolors label xlim ylim ax title
       controls opts kwargs w =
     (case broadcast_many hp
             [(x, ''x''), (y, ''y''), (prep_color tk c, ''c''), (prep_size tk s, ''s''),
              (prep_color tk edgecolors, ''edgecolors''), (alpha, ''alpha''),
              (label, ''labels'')] of
        [X, Y, cols, sizes, edgecolors, alphas, labels] \<Rightarrow>
          (let stretch_x = scatter_stretch_x xlim;
               stretch_y = scatter_stretch_y ylim;
               ipympl = notebook_backend hp w
           in case gogogo_figure hp ipympl ax w of ((fig, ax), w) \<Rightarrow>
          (let use_ipywidgets = (ipympl \<or> opt_force_ipywidgets opts);
               slider_formats =
                 create_slider_format_dict hp (opt_slider_formats opts) use_ipywidgets
           in case gogogo_controls hp kwargs controls (opt_display_controls opts) slider_formats
                     (opt_play_buttons opts) (opt_play_button_pos opts) w of
                ((controls, params), w) \<Rightarrow>
          (let tups = zip X (zip Y (zip cols (zip sizes (zip edgecolors (zip alphas labels)))));
               scats = [n_artists w ..< n_artists w + length tups];
               cache = n_caches w;
               w = w\<lparr>n_caches := Suc cache, cache_of := (cache_of w)(cache := Map.empty)\<rparr>;
               update = Scatter_update
                 \<lparr>sc_title = title, sc_ax = ax, sc_scats = scats, sc_X = X, sc_Y = Y,
                  sc_cols = cols, sc_sizes = sizes, sc_edgecolors = edgecolors,
                  sc_alphas = alphas, sc_cache = cache, sc_stretch_x = stretch_x,
                  sc_stretch_y = stretch_y\<rparr>;
               w = register_function update fig (dom params) controls w;
               w = (case title of
                      None \<Rightarrow> w
                    | Some t \<Rightarrow> upd_axes ax (set_title (str_format tk t params)) w);
               w = scatter_create_loop tk hp ax cache title params
                     [''vmin'' \<mapsto> vmin, ''vmax'' \<mapsto> vmax, ''cmap'' \<mapsto> cmap] tups w;
               w = w\<lparr>cache_of := (cache_of w)(cache := Map.empty)\<rparr>
           in (Inr controls, w))))
      | other \<Rightarrow> (Inl ValueError, w))"

section \<open>interactive_imshow\<close>

text \<open>\<open>ax.imshow(data, vmin=..., vmax=..., ...)\<close> and the setters of an image.\<close>

definition imshow :: "'d toolkit \<Rightarrow> nat \<Rightarrow> 'd pyvalue \<Rightarrow> 'd pyvalue \<Rightarrow> 'd pyvalue
    \<Rightarrow> (string \<rightharpoonup> 'd pyobj) \<Rightarrow> 'd world \<Rightarrow> nat \<times> 'd world" where
  "imshow tk a new_data vmin vmax args w =
     (let im = n_artists w;
          w = w\<lparr>n_artists := Suc im,
                artists := (artists w)(im := Axes_image
                  \<lparr>im_data = new_data,
                   norm_vmin = (if vmin = VNone then fst (norm_autoscale tk new_data) else vmin),
                   norm_vmax = (if vmax = VNone then snd (norm_autoscale tk new_data) else vmax),
                   im_args = args\<rparr>),
                artist_axes := (artist_axes w)(im := a)\<rparr>;
          box = data_bbox tk w a
      in (im, upd_axes a (\<lambda>ax. autoscale (view_limits tk) True True
                             (ax\<lparr>dataLim := box, calls := calls ax @ [Imshow im]\<rparr>)) w))"

fun upd_image :: "('d axes_image \<Rightarrow> 'd axes_image) \<Rightarrow> 'd artist \<Rightarrow> 'd artist" where
  "upd_image f (Axes_image i) = Axes_image (f i)"
| "upd_image f a = a"

text \<open>The closure \<open>update(params, indices)\<close> of \<open>interactive_imshow\<close>.\<close>

definition imshow_update :: "'d toolkit \<Rightarrow> 'd helpers \<Rightarrow> 'd imshow_closure \<Rightarrow> params
    \<Rightarrow> (string \<rightharpoonup> nat) \<Rightarrow> 'd world \<Rightarrow> error option \<times> params \<times> 'd world" where
  "imshow_update tk hp cl params indices w =
     (let w = (case im_title cl of
                 None \<Rightarrow> w
               | Some t \<Rightarrow> upd_axes (im_ax cl) (set_title (str_format tk t params)) w)
      in case (if is_callable (im_X cl)
               then (case call_obj (im_X cl) [] params of
                       Inl e \<Rightarrow> Inl e
                     | Inr v \<Rightarrow>
                         (let new_data = asarray tk v;
                              w = upd_artist (im_im cl) (upd_image (\<lambda>i. i\<lparr>im_data := new_data\<rparr>)) w
                          in if im_autoscale_cmap cl \<and> ndim tk new_data \<noteq> 3
                                \<and> im_vmin cl = Val VNone \<and> im_vmax cl = Val VNone
                             then Inr (upd_artist (im_im cl)
                                    (upd_image (\<lambda>i. i\<lparr>norm_vmin := fst (norm_autoscale tk new_data),
                                                       norm_vmax := snd (norm_autoscale tk new_data)\<rparr>)) w)
                             else Inr w))
               else Inr w) of
           Inl e \<Rightarrow> (Some e, params, w)
         | Inr w \<Rightarrow>
      (case (if is_callable (im_vmin cl)
             then (case call_obj (im_vmin cl) [] params of
                     Inl e \<Rightarrow> Inl e
                   | Inr v \<Rightarrow> Inr (upd_artist (im_im cl) (upd_image (\<lambda>i. i\<lparr>norm_vmin := v\<rparr>)) w))
             else Inr w) of
         Inl e \<Rightarrow> (Some e, params, w)
       | Inr w \<Rightarrow>
      (case (if is_callable (im_vmax cl)
             then (case call_obj (im_vmax cl) [] params of
                     Inl e \<Rightarrow> Inl e
                   | Inr v \<Rightarrow> Inr (upd_artist (im_im cl) (upd_image (\<lambda>i. i\<lparr>norm_vmax := v\<rparr>)) w))
             else Inr w) of
         Inl e \<Rightarrow> (Some e, params, w)
       | Inr w \<Rightarrow> (None, params, w))))"

text \<open>
  \<open>interactive_imshow(X, ..., vmin, vmax, ..., autoscale_cmap, ..., ax, ..., title, ...,
  **kwargs)\<close>; \<open>args\<close> stands for the arguments handed on to \<open>ax.imshow\<close> unchanged. The
  dictionary \<open>{k: controls.params[k] for k in kwargs}\<close> raises KeyError when a name of
  \<open>kwargs\<close> is not among the params of the controls object.
\<close>

definition interactive_imshow :: "'d toolkit \<Rightarrow> 'd helpers \<Rightarrow> 'd pyobj \<Rightarrow> 'd pyobj \<Rightarrow> 'd pyobj
    \<Rightarrow> bool \<Rightarrow> (string \<rightharpoonup> 'd pyobj) \<Rightarrow> nat option \<Rightarrow> string option \<Rightarrow> nat option
    \<Rightarrow> 'd options \<Rightarrow> (string \<rightharpoonup> 'd pyobj) \<Rightarrow> 'd world \<Rightarrow> (error + nat) \<times> 'd world" where
  "interactive_imshow tk hp X vmin vmax autoscale_cmap args ax title controls opts kwargs w =
     (let ipympl = notebook_backend hp w
      in case gogogo_figure hp ipympl ax w of ((fig, ax), w) \<Rightarrow>
     (let use_ipywidgets = (ipympl \<or> opt_force_ipywidgets opts);
          slider_formats =
            create_slider_format_dict hp (opt_slider_formats opts) use_ipywidgets
      in case gogogo_controls hp kwargs controls (opt_display_controls opts) slider_formats
                (opt_play_buttons opts) (opt_play_button_pos opts) w of
           ((controls, params), w) \<Rightarrow>
     (let update = Imshow_update
            \<lparr>im_title = title, im_ax = ax, im_X = X, im_im = n_artists w,
             im_autoscale_cmap = autoscale_cmap, im_vmin = vmin, im_vmax = vmax\<rparr>;
          w = register_function update fig (dom params) controls w
      in if \<not> dom kwargs \<subseteq> dom (ctl_params (controls_of w controls)) then (Inl KeyError, w)
         else
          (let new_data = callable_else_value hp X
                 (ctl_params (controls_of w controls) |` dom kwargs);
               (im, w) = imshow tk ax new_data (callable_else_value hp vmin params)
                           (callable_else_value hp vmax params) args w;
               w = w\<lparr>current_image := Some im\<rparr>;
               w = (case title of
                      None \<Rightarrow> w
                    | Some t \<Rightarrow> upd_axes ax (set_title (str_format tk t params)) w)
           in (Inr controls, w)))))"

section \<open>Update cycles\<close>

text \<open>The update cycles of one \<open>interactive_plot\<close>: its closure run once for each params.\<close>

fun plot_updates :: "'d toolkit \<Rightarrow> 'd helpers \<Rightarrow> 'd plot_closure \<Rightarrow> params list
    \<Rightarrow> 'd world \<Rightarrow> 'd world" where
  "plot_updates tk hp cl [] w = w"
| "plot_updates tk hp cl (params # ps) w =
     plot_updates tk hp cl ps (snd (snd (plot_update tk hp cl params Map.empty w)))"

text \<open>Calling a registered callback is calling the closure it stands for.\<close>

fun run_callback :: "'d toolkit \<Rightarrow> 'd helpers \<Rightarrow> 'd callback \<Rightarrow> params \<Rightarrow> (string \<rightharpoonup> nat)
    \<Rightarrow> 'd world \<Rightarrow> error option \<times> params \<times> 'd world" where
  "run_callback tk hp (Plot_update cl) params indices w = plot_update tk hp cl params indices w"
| "run_callback tk hp (Hist_update cl) params indices w = hist_update tk hp cl params indices w"
| "run_callback tk hp (Scatter_update cl) params indices w =
     scatter_update tk hp cl params indices w"
| "run_callback tk hp (Imshow_update cl) params indices w =
     imshow_update tk hp cl params indices w"

text \<open>
  Modelled from the spec: the change handler of \<open>Controls\<close> in \<open>controller.py\<close>, which is
  not among the sources. The spec says that the helpers "re-render a plot whenever a
  control changes", that the change event of each widget is wired "to a recomputation of
  one or more plotted artists", and that the params are "the current mapping from
  parameter name to its live value, read by update callbacks". So a change of the control
  \<open>k\<close> to the value \<open>v\<close> stores \<open>v\<close> in the params and then calls, in the order of their
  registration, every callback registered for \<open>k\<close> with the current values of the names it
  was registered for; an exception of a callback ends the handler. The second result
  lists the callbacks that were called.
\<close>

fun run_callbacks :: "'d toolkit \<Rightarrow> 'd helpers \<Rightarrow> ('d callback \<times> nat \<times> string set) list
    \<Rightarrow> string \<Rightarrow> params \<Rightarrow> 'd world \<Rightarrow> error option \<times> 'd callback list \<times> 'd world" where
  "run_callbacks tk hp [] k ps w = (None, [], w)"
| "run_callbacks tk hp ((f, fig, keys) # fs) k ps w =
     (if k \<in> keys
      then (case run_callback tk hp f (ps |` keys) Map.empty w of
              (Some e, ps', w) \<Rightarrow> (Some e, [f], w)
            | (None, ps', w) \<Rightarrow>
                (case run_callbacks tk hp fs k ps w of
                   (r, called, w) \<Rightarrow> (r, f # called, w)))
      else run_callbacks tk hp fs k ps w)"

definition control_changed :: "'d toolkit \<Rightarrow> 'd helpers \<Rightarrow> nat \<Rightarrow> string \<Rightarrow> real \<Rightarrow> 'd world
    \<Rightarrow> error option \<times> 'd callback list \<times> 'd world" where
  "control_changed tk hp c k v w =
     (let w = w\<lparr>controls_of := (controls_of w)(c :=
                 (controls_of w c)\<lparr>ctl_params := (ctl_params (controls_of w c))(k \<mapsto> v)\<rparr>)\<rparr>
      in run_callbacks tk hp (registry (controls_of w c)) k (ctl_params (controls_of w c)) w)"

section \<open>A concrete toolkit, helpers and world\<close>

text \<open>
  One instance of the parameters, on which the theorems below are run: the view interval
  is the data interval, the data limits are a fixed box, the histogram has two bins, a
  new figure and a new controls object have the number 0, and the params are the numeric
  keyword arguments.
\<close>

definition example_toolkit :: "unit toolkit" where
  "example_toolkit =
     \<lparr>view_limits = (\<lambda>lo hi. (lo, hi)),
      data_bbox = (\<lambda>w a. \<lparr>x0 = 0, y0 = - 1, width = 10, height = 3\<rparr>),
      str_format = (\<lambda>s ps. s),
      arr_truthy = (\<lambda>d. True),
      np_histogram = (\<lambda>arr bins density weights. ([2, 5], [0, 1, 3])),
      column_stack = (\<lambda>x y. y),
      to_rgba_array = (\<lambda>c. Inr c),
      cmap_call = (\<lambda>scat c. Inr c),
      get_datalim = (\<lambda>scat. \<lparr>x0 = 0, y0 = 0, width = 1, height = 1\<rparr>),
      is_color_array = (\<lambda>v. False),
      add_axis = (\<lambda>v. v),
      is_number_seq = (\<lambda>v. False),
      as_object_array = (\<lambda>v. v),
      asarray = (\<lambda>v. v),
      ndim = (\<lambda>v. 2),
      norm_autoscale = (\<lambda>v. (v, v))\<rparr>"

definition numeric_params :: "(string \<rightharpoonup> 'd pyobj) \<Rightarrow> params" where
  "numeric_params kwargs =
     (\<lambda>k. case kwargs k of Some (Val (VNum r)) \<Rightarrow> Some r | other \<Rightarrow> None)"

definition example_helpers :: "unit helpers" where
  "example_helpers =
     \<lparr>notebook_backend = (\<lambda>w. False),
      gogogo_figure = (\<lambda>ipympl ax w. ((0, case ax of None \<Rightarrow> 0 | Some a \<Rightarrow> a), w)),
      create_slider_format_dict = (\<lambda>v b. v),
      gogogo_controls = (\<lambda>kwargs controls display_controls slider_formats play_buttons
          play_button_pos w.
        (let c = (case controls of None \<Rightarrow> 0 | Some c \<Rightarrow> c)
         in ((c, numeric_params kwargs),
             w\<lparr>controls_of := (controls_of w)(c :=
                  (controls_of w c)\<lparr>ctl_params :=
                     ctl_params (controls_of w c) ++ numeric_params kwargs\<rparr>)\<rparr>))),
      callable_else_value = (\<lambda>v ps. case v of Val u \<Rightarrow> u | Func i f \<Rightarrow> f [] ps),
      eval_xy = (\<lambda>x y ps cache.
        (let xv = (case x of Val u \<Rightarrow> u | Func i f \<Rightarrow> f [] ps)
         in ((xv, case y of Val u \<Rightarrow> u | Func i f \<Rightarrow> f [xv] ps), cache))),
      update_datalim_from_bbox = (\<lambda>box stretch_x stretch_y ax. ax\<lparr>dataLim := box\<rparr>),
      broadcast_many = (\<lambda>xs. map (\<lambda>(v, name). [v]) xs)\<rparr>"

definition example_axes :: axes where
  "example_axes =
     \<lparr>view_x = (2, 5), view_y = (0, 1), autoscalex_on = True, autoscaley_on = True,
      dataLim = \<lparr>x0 = 0, y0 = 0, width = 1, height = 1\<rparr>, ax_title = [], calls = []\<rparr>"

definition example_world :: "unit world" where
  "example_world =
     \<lparr>axes_of = (\<lambda>a. example_axes), n_artists = 0, artists = (\<lambda>i. No_artist),
      artist_axes = (\<lambda>i. 0), toolbar_of = (\<lambda>fig. None), current_image = None,
      n_caches = 0, cache_of = (\<lambda>k. Map.empty),
      controls_of = (\<lambda>c. \<lparr>ctl_params = Map.empty, registry = []\<rparr>)\<rparr>"

definition example_options :: "unit options" where
  "example_options =
     \<lparr>opt_slider_formats = VNone, opt_force_ipywidgets = False, opt_play_buttons = VBool False,
      opt_play_button_pos = VStr ''right'', opt_display_controls = True\<rparr>"

section \<open>Properties of simple_hist\<close>

lemma fold_min_Min: "fold min ys (x::real) = Min (set (x # ys))"
  by (rule Min.set_eq_fold [symmetric])

lemma fold_max_Max: "fold max ys (x::real) = Max (set (x # ys))"
  by (rule Max.set_eq_fold [symmetric])

lemma amin_Min: "xs \<noteq> [] \<Longrightarrow> amin xs = Inr (Min (set xs))"
  by (cases xs) (simp_all add: amin_def fold_min_Min del: set_simps)

lemma amax_Max: "xs \<noteq> [] \<Longrightarrow> amax xs = Inr (Max (set xs))"
  by (cases xs) (simp_all add: amax_def fold_max_Max del: set_simps)

lemma hist_loop_append:
  "set is \<subseteq> {..<length heights} \<Longrightarrow> set is \<subseteq> {..<length bins} \<Longrightarrow>
   hist_loop heights bins w is acc =
     Inr (acc @ map (\<lambda>i. \<lparr>xy = (bins ! i, 0), rect_width = w, rect_height = heights ! i\<rparr>) is)"
  by (induction "is" arbitrary: acc) (simp_all add: getitem_def)

lemma hist_loop_upt:
  assumes "length bins = Suc (length heights)"
  shows "hist_loop heights bins w [0..<length heights] [] =
     Inr (map (\<lambda>i. \<lparr>xy = (bins ! i, 0), rect_width = w, rect_height = heights ! i\<rparr>)
            [0..<length heights])"
proof -
  have "set [0..<length heights] \<subseteq> {..<length heights}"
    by auto
  moreover have "set [0..<length heights] \<subseteq> {..<length bins}"
    using assms by auto
  ultimately show ?thesis
    using hist_loop_append [of "[0..<length heights]" heights bins w "[]"] by simp
qed

lemma simple_hist_of_result:
  assumes len: "length bins = Suc (length heights)" and ne: "heights \<noteq> []"
  shows "simple_hist_of heights bins =
     Inr ((Min (set bins), Max (set bins)), (0, Max (set heights) * 1.05),
          map (\<lambda>i. \<lparr>xy = (bins ! i, 0), rect_width = bins ! 1 - bins ! 0,
                       rect_height = heights ! i\<rparr>) [0..<length heights])"
proof -
  have l2: "1 < length bins" "0 < length bins"
    using len ne by (cases heights; simp)+
  have bne: "bins \<noteq> []"
    using len by auto
  show ?thesis
    using l2 by (simp add: simple_hist_of_def getitem_def hist_loop_upt [OF len]
        amin_Min [OF bne] amax_Max [OF bne] amax_Max [OF ne])
qed

section \<open>Claims\<close>

text \<open>
  C8. Whenever \<open>np.histogram\<close> returns \<open>n \<ge> 1\<close> heights and \<open>n + 1\<close> bin edges,
  \<open>simple_hist\<close> returns without error: \<open>xlims\<close> is (smallest edge, largest edge),
  \<open>ylims\<close> is (0, 1.05 times the largest height), and the patches are exactly the \<open>n\<close>
  rectangles anchored at \<open>(bins[i], 0)\<close> with height \<open>heights[i]\<close>, for \<open>i = 0, ..., n - 1\<close> in
  this order, all of the one width \<open>bins[1] - bins[0]\<close>, whatever the spacing of the edges.
\<close>

theorem simple_hist_result:
  assumes "histogram arr = (heights, bins)"
    and "length bins = Suc (length heights)"
    and "heights \<noteq> []"
  shows "simple_hist histogram arr =
     Inr ((Min (set bins), Max (set bins)), (0, 1.05 * Max (set heights)),
          map (\<lambda>i. \<lparr>xy = (bins ! i, 0), rect_width = bins ! 1 - bins ! 0,
                       rect_height = heights ! i\<rparr>) [0..<length heights])"
  using assms by (simp add: simple_hist_def simple_hist_of_result)

text \<open>Two bins with the edges 0, 1, 3: both rectangles have the width 1.\<close>

theorem simple_hist_result_witness:
  "simple_hist (\<lambda>arr::unit. ([2, 5], [0, 1, 3])) () =
     Inr ((0, 3), (0, 5.25),
          [\<lparr>xy = (0, 0), rect_width = 1, rect_height = 2\<rparr>,
           \<lparr>xy = (1, 0), rect_width = 1, rect_height = 5\<rparr>])"
  using simple_hist_result [of "\<lambda>arr::unit. ([2, 5], [0, 1, 3])" "()" "[2, 5]" "[0, 1, 3]"]
  by (simp add: upt_rec)

end
